theory Spec2Isabelle
  imports Main
begin

section \<open>Jenkins/deploy.py: an ECS Fargate deployment script\<close>

text \<open>
  The script is one straight procedure: it loads a YAML file, finds or creates a load
  balancer target group, registers a task definition revision whose secrets point at SSM
  parameters, and creates or updates an ECS service. Everything it does is a call to a
  remote AWS service, a line printed, or an exit. The embedding therefore threads a state
  holding the world outside the process, the list of remote calls issued so far and the
  lines printed so far; a Python exception and \<open>sys.exit\<close> are the left summand of
  the result.
\<close>

subsection \<open>Values\<close>

text \<open>
  What \<open>yaml.safe_load\<close> returns: the Python value of a YAML document. A mapping is
  the list of its items in order, with strings as keys; the scalars that are neither
  strings, booleans nor integers behave as the integers do here.
\<close>

datatype yaml =
    YNull
  | YBool bool
  | YInt int
  | YStr string
  | YSeq "yaml list"
  | YMap "(string \<times> yaml) list"

text \<open>
  The exceptions that occur. \<open>ClientError code\<close> is an error answered by an AWS
  service, with its error code; \<open>ParamValidationError\<close> is raised by the client library
  before a request is sent.
\<close>

datatype exn =
    IndexError
  | KeyError
  | TypeError
  | AttributeError
  | OSError
  | YAMLError
  | ParamValidationError
  | ClientError string

text \<open>How a run of Python code stops early: \<open>sys.exit n\<close> or an exception nobody caught.\<close>

datatype abort = SysExit nat | Uncaught exn

text \<open>What opening a path and parsing its contents as YAML gives.\<close>

datatype file_load = Unreadable | Malformed | Document yaml

subsection \<open>Requests to the AWS services\<close>

record target_group_request =
  tg_Name :: string
  tg_Protocol :: string
  tg_Port :: nat
  tg_VpcId :: string
  tg_TargetType :: string
  tg_HealthCheckProtocol :: string
  tg_HealthCheckPath :: string
  tg_Matcher_HttpCode :: string

record container_definition =
  cd_name :: string
  cd_image :: string
  cd_essential :: bool
  cd_portMappings :: "(nat \<times> string) list"
  cd_secrets :: "(string \<times> string) list"
  cd_logDriver :: string
  cd_awslogs_group :: string
  cd_awslogs_region :: string
  cd_awslogs_stream_prefix :: string

record task_definition_request =
  td_family :: string
  td_networkMode :: string
  td_requiresCompatibilities :: "string list"
  td_cpu :: string
  td_memory :: string
  td_executionRoleArn :: string
  td_taskRoleArn :: string
  td_containerDefinitions :: "container_definition list"

record update_service_request =
  us_cluster :: string
  us_service :: string
  us_taskDefinition :: string
  us_forceNewDeployment :: bool

record load_balancer =
  lb_targetGroupArn :: string
  lb_containerName :: string
  lb_containerPort :: nat

record create_service_request =
  cs_cluster :: string
  cs_serviceName :: string
  cs_taskDefinition :: string
  cs_launchType :: string
  cs_desiredCount :: nat
  cs_subnets :: "string list"
  cs_securityGroups :: "string list"
  cs_assignPublicIp :: string
  cs_loadBalancers :: "load_balancer list"

text \<open>One constructor for each client method the script calls.\<close>

datatype call =
    StsGetCallerIdentity
  | SsmGetParameter string
  | ElbDescribeTargetGroups "string list"
  | ElbCreateTargetGroup target_group_request
  | EcsRegisterTaskDefinition task_definition_request
  | EcsDescribeServices string "string list"
  | EcsUpdateService update_service_request
  | EcsCreateService create_service_request

text \<open>One constructor for each \<open>print\<close> of the script, with the values it interpolates.\<close>

datatype msg =
    MsgIniciandoScript string
  | MsgErrorLeyendo string exn
  | MsgParametroNoExiste string
  | MsgTargetGroupEncontrado string
  | MsgTargetGroupNoExiste string
  | MsgGenerandoSecretos
  | MsgRegistrando string
  | MsgIniciandoDespliegue string
  | MsgServicioExiste
  | MsgServicioNoExiste
  | MsgOrdenEnviada
  | MsgDespliegueFinalizado

subsection \<open>The world outside the process\<close>

text \<open>A service as \<open>describe_services\<close> describes it.\<close>

record service =
  serviceArn :: string
  status :: string
  taskDefinition :: string

text \<open>
  The world: the region of the session, the account of the caller, the files, and the
  stores of the three services. A parameter has a value, which the script never asks to
  see used; a target group and a task definition get the identifier the service assigns.
\<close>

record world =
  region_name :: string
  account :: string
  files :: "string \<Rightarrow> file_load"
  parameters :: "string \<rightharpoonup> string"
  target_groups :: "string \<rightharpoonup> string"
  assign_target_group_arn :: "string \<Rightarrow> string"
  task_definitions :: "task_definition_request list"
  assign_task_definition_arn :: "string \<Rightarrow> nat \<Rightarrow> string"
  services :: "string \<times> string \<rightharpoonup> service"

record state =
  env :: world
  calls :: "call list"
  stdout :: "msg list"

text \<open>The process as it starts: clients constructed, nothing called, nothing printed.\<close>

definition process_start :: "world \<Rightarrow> state" where
  "process_start w = \<lparr>env = w, calls = [], stdout = []\<rparr>"

subsection \<open>Control flow\<close>

type_synonym 'a prog = "state \<Rightarrow> (abort + 'a) \<times> state"

definition ret :: "'a \<Rightarrow> 'a prog" where
  "ret x s = (Inr x, s)"

definition bind :: "'a prog \<Rightarrow> ('a \<Rightarrow> 'b prog) \<Rightarrow> 'b prog" where
  "bind m f s = (case m s of (Inl a, s') \<Rightarrow> (Inl a, s') | (Inr x, s') \<Rightarrow> f x s')"

definition raise :: "exn \<Rightarrow> 'a prog" where
  "raise e s = (Inl (Uncaught e), s)"

definition sys_exit :: "nat \<Rightarrow> 'a prog" where
  "sys_exit n s = (Inl (SysExit n), s)"

definition print_msg :: "msg \<Rightarrow> unit prog" where
  "print_msg m s = (Inr (), s\<lparr>stdout := stdout s @ [m]\<rparr>)"

text \<open>
  \<open>try: m except E: h\<close>, where \<open>handles\<close> says which exceptions \<open>E\<close> names.
  \<open>sys.exit\<close> passes through: none of the handlers of the script names it.
\<close>

definition try_except :: "'a prog \<Rightarrow> (exn \<Rightarrow> bool) \<Rightarrow> (exn \<Rightarrow> 'a prog) \<Rightarrow> 'a prog" where
  "try_except m handles h s =
     (case m s of
        (Inl (Uncaught e), s') \<Rightarrow> if handles e then h e s' else (Inl (Uncaught e), s')
      | r \<Rightarrow> r)"

text \<open>
  A remote call: it is recorded as issued, the service's answer becomes the result (an
  error answer is raised as an exception) and the service's store changes.
\<close>

definition request :: "call \<Rightarrow> (world \<Rightarrow> (exn + 'a) \<times> world) \<Rightarrow> 'a prog" where
  "request c f s =
     (case f (env s) of
        (Inl e, w') \<Rightarrow> (Inl (Uncaught e), s\<lparr>env := w', calls := calls s @ [c]\<rparr>)
      | (Inr x, w') \<Rightarrow> (Inr x, s\<lparr>env := w', calls := calls s @ [c]\<rparr>))"

text \<open>\<open>xs[0]\<close>\<close>

definition index0 :: "'a list \<Rightarrow> 'a prog" where
  "index0 xs = (case xs of [] \<Rightarrow> raise IndexError | x # _ \<Rightarrow> ret x)"

text \<open>\<open>v[k]\<close> for a string \<open>k\<close>: only a dict can be subscripted by a string.\<close>

definition subscript :: "yaml \<Rightarrow> string \<Rightarrow> yaml prog" where
  "subscript v k =
     (case v of
        YMap kvs \<Rightarrow> (case map_of kvs k of Some x \<Rightarrow> ret x | None \<Rightarrow> raise KeyError)
      | _ \<Rightarrow> raise TypeError)"

text \<open>\<open>v.items()\<close>: only a dict has the attribute.\<close>

definition items :: "yaml \<Rightarrow> (string \<times> yaml) list prog" where
  "items v = (case v of YMap kvs \<Rightarrow> ret kvs | _ \<Rightarrow> raise AttributeError)"

text \<open>\<open>yaml.safe_load(open(path))\<close>\<close>

definition open_and_safe_load :: "string \<Rightarrow> yaml prog" where
  "open_and_safe_load path s =
     (case files (env s) path of
        Unreadable \<Rightarrow> raise OSError s
      | Malformed \<Rightarrow> raise YAMLError s
      | Document d \<Rightarrow> ret d s)"

text \<open>\<open>boto3.session.Session().region_name\<close>: read from the local configuration.\<close>

definition session_region_name :: "string prog" where
  "session_region_name s = (Inr (region_name (env s)), s)"

subsection \<open>Strings\<close>

text \<open>
  \<open>s.split(sep)\<close> for a separator of one character: every occurrence separates, nothing
  is trimmed and empty pieces are kept.
\<close>

fun str_split :: "char \<Rightarrow> string \<Rightarrow> string list" where
  "str_split sep [] = [[]]"
| "str_split sep (c # cs) =
     (if c = sep then [] # str_split sep cs
      else (case str_split sep cs of [] \<Rightarrow> [[c]] | w # ws \<Rightarrow> (c # w) # ws))"

text \<open>
  \<open>s.replace(old, new)\<close>: every occurrence of \<open>old\<close>, found from the left without
  overlap, becomes \<open>new\<close>. (For an empty \<open>old\<close> Python puts \<open>new\<close> before every
  character and at the end.)
\<close>

fun str_replace :: "string \<Rightarrow> string \<Rightarrow> string \<Rightarrow> string" where
  "str_replace old new [] = (if old = [] then new else [])"
| "str_replace old new (c # cs) =
     (if old = [] then new @ c # str_replace old new cs
      else if take (length old) (c # cs) = old
        then new @ str_replace old new (drop (length old - 1) cs)
        else c # str_replace old new cs)"

subsection \<open>The services\<close>

text \<open>
  Each service answers from its store. The identity service names the account. The
  parameter store answers a path it holds with the parameter, value included, and any
  other path with \<open>ParameterNotFound\<close>; a name that is not a string never leaves the
  client library. The load balancing service describes target groups by name and answers
  \<open>TargetGroupNotFound\<close> when one is missing; a created group is there afterwards.
  The container service lists the services it finds and leaves out those it does not.
  A service always answers: the failures of transport and of permission, which the script
  does not handle, are not part of this world.
\<close>

definition sts_get_caller_identity :: "string prog" where
  "sts_get_caller_identity = request StsGetCallerIdentity (\<lambda>w. (Inr (account w), w))"

definition ssm_get_parameter :: "string \<Rightarrow> string prog" where
  "ssm_get_parameter name =
     request (SsmGetParameter name)
       (\<lambda>w. (case parameters w name of
                None \<Rightarrow> Inl (ClientError ''ParameterNotFound'')
              | Some v \<Rightarrow> Inr v, w))"

definition elbv2_describe_target_groups :: "string list \<Rightarrow> string list prog" where
  "elbv2_describe_target_groups names =
     request (ElbDescribeTargetGroups names)
       (\<lambda>w. (case those (map (target_groups w) names) of
                None \<Rightarrow> Inl (ClientError ''TargetGroupNotFound'')
              | Some arns \<Rightarrow> Inr arns, w))"

definition elbv2_create_target_group :: "target_group_request \<Rightarrow> string list prog" where
  "elbv2_create_target_group req =
     request (ElbCreateTargetGroup req)
       (\<lambda>w. case target_groups w (tg_Name req) of
               Some _ \<Rightarrow> (Inl (ClientError ''DuplicateTargetGroupName''), w)
             | None \<Rightarrow>
                 (Inr [assign_target_group_arn w (tg_Name req)],
                  w\<lparr>target_groups :=
                      (target_groups w)(tg_Name req \<mapsto> assign_target_group_arn w (tg_Name req))\<rparr>))"

definition ecs_register_task_definition :: "task_definition_request \<Rightarrow> string prog" where
  "ecs_register_task_definition req =
     request (EcsRegisterTaskDefinition req)
       (\<lambda>w. (Inr (assign_task_definition_arn w (td_family req)
                    (Suc (length (filter (\<lambda>d. td_family d = td_family req) (task_definitions w))))),
              w\<lparr>task_definitions := task_definitions w @ [req]\<rparr>))"

definition ecs_describe_services :: "string \<Rightarrow> string list \<Rightarrow> service list prog" where
  "ecs_describe_services cluster_name names =
     request (EcsDescribeServices cluster_name names)
       (\<lambda>w. (Inr (List.map_filter (\<lambda>n. services w (cluster_name, n)) names), w))"

definition ecs_update_service :: "update_service_request \<Rightarrow> unit prog" where
  "ecs_update_service req =
     request (EcsUpdateService req)
       (\<lambda>w. case services w (us_cluster req, us_service req) of
               None \<Rightarrow> (Inl (ClientError ''ServiceNotFoundException''), w)
             | Some sv \<Rightarrow>
                 (Inr (),
                  w\<lparr>services := (services w)((us_cluster req, us_service req) \<mapsto>
                      sv\<lparr>taskDefinition := us_taskDefinition req\<rparr>)\<rparr>))"

definition ecs_create_service :: "create_service_request \<Rightarrow> unit prog" where
  "ecs_create_service req =
     request (EcsCreateService req)
       (\<lambda>w. (Inr (),
              w\<lparr>services := (services w)((cs_cluster req, cs_serviceName req) \<mapsto>
                  \<lparr>serviceArn = ''arn:aws:ecs:'' @ region_name w @ '':'' @ account w @ '':service/''
                                  @ cs_cluster req @ ''/'' @ cs_serviceName req,
                   status = ''ACTIVE'',
                   taskDefinition = cs_taskDefinition req\<rparr>)\<rparr>))"

subsection \<open>The script\<close>

definition get_account_id :: "string prog" where
  "get_account_id = sts_get_caller_identity"

text \<open>The f-string that builds the identifier of a parameter.\<close>

definition ssm_parameter_arn :: "string \<Rightarrow> string \<Rightarrow> string \<Rightarrow> string" where
  "ssm_parameter_arn region account_id param_name =
     ''arn:aws:ssm:'' @ region @ '':'' @ account_id @ '':parameter'' @ param_name"

text \<open>
  \<open>get_ssm_parameter_arn\<close>. The client library refuses a \<open>Name\<close> that is not a string
  with \<open>ParamValidationError\<close> before anything is sent, and the handler does not name
  that exception.
\<close>

definition get_ssm_parameter_arn :: "yaml \<Rightarrow> string prog" where
  "get_ssm_parameter_arn param_name =
     (case param_name of
        YStr p \<Rightarrow>
          try_except
            (bind (ssm_get_parameter p) (\<lambda>_.
             bind session_region_name (\<lambda>region.
             bind get_account_id (\<lambda>account_id.
             ret (ssm_parameter_arn region account_id p)))))
            (\<lambda>e. e = ClientError ''ParameterNotFound'')
            (\<lambda>_. bind (print_msg (MsgParametroNoExiste p)) (\<lambda>_. sys_exit 1))
      | _ \<Rightarrow> raise ParamValidationError)"

text \<open>The keyword arguments of the \<open>create_target_group\<close> call.\<close>

definition create_target_group_kwargs :: "string \<Rightarrow> nat \<Rightarrow> string \<Rightarrow> target_group_request" where
  "create_target_group_kwargs tg_name port vpc_id =
     \<lparr>tg_Name = tg_name, tg_Protocol = ''HTTP'', tg_Port = port,
      tg_VpcId = vpc_id, tg_TargetType = ''ip'',
      tg_HealthCheckProtocol = ''HTTP'', tg_HealthCheckPath = ''/'',
      tg_Matcher_HttpCode = ''200-299''\<rparr>"

definition get_or_create_target_group :: "string \<Rightarrow> string \<Rightarrow> nat \<Rightarrow> string prog" where
  "get_or_create_target_group vpc_id project_name port =
     (let tg_name = project_name @ ''-tg'' in
      bind (try_except
              (bind (elbv2_describe_target_groups [tg_name]) (\<lambda>response.
               bind (print_msg (MsgTargetGroupEncontrado tg_name)) (\<lambda>_.
               bind (index0 response) (\<lambda>arn. ret (Some arn)))))
              (\<lambda>e. e = ClientError ''TargetGroupNotFound'')
              (\<lambda>_. bind (print_msg (MsgTargetGroupNoExiste tg_name)) (\<lambda>_. ret None)))
        (\<lambda>found.
           case found of
             Some arn \<Rightarrow> ret arn
           | None \<Rightarrow>
               bind (elbv2_create_target_group (create_target_group_kwargs tg_name port vpc_id))
                 index0))"

text \<open>The loop of \<open>register_task_definition\<close> over the items of the mapping.\<close>

fun secrets_loop ::
  "(string \<times> yaml) list \<Rightarrow> (string \<times> string) list \<Rightarrow> (string \<times> string) list prog" where
  "secrets_loop [] secrets_config = ret secrets_config"
| "secrets_loop ((env_var_name, ssm_path) # rest) secrets_config =
     bind (get_ssm_parameter_arn ssm_path) (\<lambda>arn.
     secrets_loop rest (secrets_config @ [(env_var_name, arn)]))"

text \<open>The keyword arguments of the \<open>register_task_definition\<close> call.\<close>

definition register_task_definition_kwargs ::
  "string \<Rightarrow> string \<Rightarrow> string \<Rightarrow> (string \<times> string) list \<Rightarrow> string \<Rightarrow> task_definition_request" where
  "register_task_definition_kwargs image_uri project_name execution_role_arn secrets_config region =
     \<lparr>td_family = project_name,
      td_networkMode = ''awsvpc'',
      td_requiresCompatibilities = [''FARGATE''],
      td_cpu = ''256'',
      td_memory = ''512'',
      td_executionRoleArn = execution_role_arn,
      td_taskRoleArn = execution_role_arn,
      td_containerDefinitions =
        [\<lparr>cd_name = project_name @ ''-container'',
          cd_image = image_uri,
          cd_essential = True,
          cd_portMappings = [(8000, ''tcp'')],
          cd_secrets = secrets_config,
          cd_logDriver = ''awslogs'',
          cd_awslogs_group = ''/ecs/'' @ project_name,
          cd_awslogs_region = region,
          cd_awslogs_stream_prefix = ''ecs''\<rparr>]\<rparr>"

definition register_task_definition :: "string \<Rightarrow> string \<Rightarrow> string \<Rightarrow> yaml \<Rightarrow> string prog" where
  "register_task_definition image_uri project_name execution_role_arn env_vars_map =
     bind (print_msg MsgGenerandoSecretos) (\<lambda>_.
     bind (items env_vars_map) (\<lambda>kvs.
     bind (secrets_loop kvs []) (\<lambda>secrets_config.
     bind (print_msg (MsgRegistrando project_name)) (\<lambda>_.
     bind session_region_name (\<lambda>region.
     ecs_register_task_definition
       (register_task_definition_kwargs image_uri project_name execution_role_arn
          secrets_config region))))))"

text \<open>The keyword arguments of the \<open>update_service\<close> and \<open>create_service\<close> calls.\<close>

definition update_service_kwargs :: "string \<Rightarrow> string \<Rightarrow> string \<Rightarrow> update_service_request" where
  "update_service_kwargs cluster_name service_name task_def_arn =
     \<lparr>us_cluster = cluster_name, us_service = service_name,
      us_taskDefinition = task_def_arn, us_forceNewDeployment = True\<rparr>"

definition create_service_kwargs ::
  "string \<Rightarrow> string \<Rightarrow> string \<Rightarrow> string \<Rightarrow> string list \<Rightarrow> string list \<Rightarrow> create_service_request" where
  "create_service_kwargs cluster_name service_name task_def_arn tg_arn subnets security_groups =
     \<lparr>cs_cluster = cluster_name, cs_serviceName = service_name,
      cs_taskDefinition = task_def_arn, cs_launchType = ''FARGATE'',
      cs_desiredCount = 1, cs_subnets = subnets,
      cs_securityGroups = security_groups, cs_assignPublicIp = ''ENABLED'',
      cs_loadBalancers =
        [\<lparr>lb_targetGroupArn = tg_arn,
          lb_containerName = str_replace ''-service'' [] service_name @ ''-container'',
          lb_containerPort = 8000\<rparr>]\<rparr>"

text \<open>
  \<open>deploy_service\<close>. A description that \<open>describe_services\<close> returns carries its
  \<open>serviceArn\<close> and its \<open>status\<close>, so of the two exceptions the first handler
  names, the \<open>IndexError\<close> of an empty list is the one that arises.
\<close>

definition deploy_service ::
  "string \<Rightarrow> string \<Rightarrow> string \<Rightarrow> string \<Rightarrow> string list \<Rightarrow> string list \<Rightarrow> unit prog" where
  "deploy_service cluster_name service_name task_def_arn tg_arn subnets security_groups =
     bind (print_msg (MsgIniciandoDespliegue service_name)) (\<lambda>_.
     bind (try_except
             (bind (ecs_describe_services cluster_name [service_name]) (\<lambda>response.
              bind (index0 response) (\<lambda>_. ret True)))
             (\<lambda>e. e = IndexError \<or> e = KeyError)
             (\<lambda>_. ret False)) (\<lambda>service_exists.
     bind (ecs_describe_services cluster_name [service_name]) (\<lambda>response.
     bind (if (case response of [] \<Rightarrow> True | sv # _ \<Rightarrow> status sv = ''INACTIVE'')
           then ret False else ret service_exists) (\<lambda>service_exists.
     bind (if service_exists
           then
             bind (print_msg MsgServicioExiste) (\<lambda>_.
             ecs_update_service (update_service_kwargs cluster_name service_name task_def_arn))
           else
             bind (print_msg MsgServicioNoExiste) (\<lambda>_.
             ecs_create_service
               (create_service_kwargs cluster_name service_name task_def_arn tg_arn
                  subnets security_groups))) (\<lambda>_.
     print_msg MsgOrdenEnviada)))))"

text \<open>The command line, after \<open>argparse\<close> has accepted it: seven required strings.\<close>

record args =
  arg_image :: string
  arg_env_yml :: string
  arg_vpc_id :: string
  arg_cluster :: string
  arg_project :: string
  arg_subnets :: string
  arg_security_groups :: string

text \<open>Step 1 of the main block: the \<open>try\<close> around reading the file.\<close>

definition load_env_map :: "string \<Rightarrow> yaml prog" where
  "load_env_map path =
     try_except
       (bind (open_and_safe_load path) (\<lambda>d. subscript d ''variables''))
       (\<lambda>_. True)
       (\<lambda>e. bind (print_msg (MsgErrorLeyendo path e)) (\<lambda>_. sys_exit 1))"

definition main :: "args \<Rightarrow> unit prog" where
  "main a =
     bind (print_msg (MsgIniciandoScript (arg_project a))) (\<lambda>_.
     bind (load_env_map (arg_env_yml a)) (\<lambda>env_map.
     bind (get_or_create_target_group (arg_vpc_id a) (arg_project a) 8000) (\<lambda>tg_arn.
     bind get_account_id (\<lambda>account_id.
     bind (register_task_definition (arg_image a) (arg_project a)
             (''arn:aws:iam::'' @ account_id @ '':role/ecsTaskExecutionRole'') env_map) (\<lambda>td_arn.
     bind (deploy_service (arg_cluster a) (arg_project a @ ''-service'') td_arn tg_arn
             (str_split CHR '','' (arg_subnets a))
             (str_split CHR '','' (arg_security_groups a))) (\<lambda>_.
     print_msg MsgDespliegueFinalizado))))))"

text \<open>
  The exit status of the process: 0 when the script runs to its end, the argument of
  \<open>sys.exit\<close>, and 1 when the interpreter dies on an uncaught exception.
\<close>

fun exit_status :: "(abort + unit) \<Rightarrow> nat" where
  "exit_status (Inr _) = 0"
| "exit_status (Inl (SysExit n)) = n"
| "exit_status (Inl (Uncaught _)) = 1"

subsection \<open>Reading a run\<close>

text \<open>The calls a piece of the script issued: those recorded after it started.\<close>

definition issued :: "state \<Rightarrow> state \<Rightarrow> call list" where
  "issued s s' = drop (length (calls s)) (calls s')"

text \<open>The calls that change something at a service.\<close>

fun mutating :: "call \<Rightarrow> bool" where
  "mutating (ElbCreateTargetGroup _) = True"
| "mutating (EcsRegisterTaskDefinition _) = True"
| "mutating (EcsUpdateService _) = True"
| "mutating (EcsCreateService _) = True"
| "mutating _ = False"

fun is_create_target_group :: "call \<Rightarrow> bool" where
  "is_create_target_group (ElbCreateTargetGroup _) = True"
| "is_create_target_group _ = False"

fun is_register :: "call \<Rightarrow> bool" where
  "is_register (EcsRegisterTaskDefinition _) = True"
| "is_register _ = False"

fun is_create_service :: "call \<Rightarrow> bool" where
  "is_create_service (EcsCreateService _) = True"
| "is_create_service _ = False"

fun is_update_service :: "call \<Rightarrow> bool" where
  "is_update_service (EcsUpdateService _) = True"
| "is_update_service _ = False"

text \<open>
  What \<open>describe_services\<close> lets the script conclude: a service is described and its
  status is not \<open>INACTIVE\<close>.
\<close>

definition service_present :: "world \<Rightarrow> string \<Rightarrow> string \<Rightarrow> bool" where
  "service_present w c n =
     (case services w (c, n) of None \<Rightarrow> False | Some sv \<Rightarrow> status sv \<noteq> ''INACTIVE'')"

text \<open>A concrete world and command line, to run the script on.\<close>

definition example_world :: world where
  "example_world =
     \<lparr>region_name = ''us-east-1'',
      account = ''123456789012'',
      files = (\<lambda>path.
        if path = ''env.yml''
        then Document (YMap [(''variables'', YMap [(''DB_PASS'', YStr ''/prod/db_pass'')])])
        else if path = ''null.yml'' then Document (YMap [(''variables'', YNull)])
        else Unreadable),
      parameters = [''/prod/db_pass'' \<mapsto> ''hunter2''],
      target_groups = Map.empty,
      assign_target_group_arn = (\<lambda>n. ''arn:aws:elasticloadbalancing:targetgroup/'' @ n),
      task_definitions = [],
      assign_task_definition_arn =
        (\<lambda>f n. ''arn:aws:ecs:task-definition/'' @ f @ '':'' @ replicate n CHR ''I''),
      services = Map.empty\<rparr>"

definition example_args :: args where
  "example_args =
     \<lparr>arg_image = ''registry/app:1'', arg_env_yml = ''env.yml'', arg_vpc_id = ''vpc-1'',
      arg_cluster = ''main'', arg_project = ''app'', arg_subnets = ''subnet-a,subnet-b,'',
      arg_security_groups = ''''\<rparr>"

text \<open>\<open>sep.join(xs)\<close>\<close>

fun str_join :: "string \<Rightarrow> string list \<Rightarrow> string" where
  "str_join sep [] = []"
| "str_join sep [x] = x"
| "str_join sep (x # y # ys) = x @ sep @ str_join sep (y # ys)"

text \<open>The diagnostic of the configuration stage, and the values that have \<open>.items()\<close>.\<close>

fun is_config_error :: "msg \<Rightarrow> bool" where
  "is_config_error (MsgErrorLeyendo _ _) = True"
| "is_config_error _ = False"

fun is_mapping :: "yaml \<Rightarrow> bool" where
  "is_mapping (YMap _) = True"
| "is_mapping _ = False"

text \<open>The container names a call registers, and those it binds a load balancer to.\<close>

fun registered_container_names :: "call \<Rightarrow> string list" where
  "registered_container_names (EcsRegisterTaskDefinition kw) =
     map cd_name (td_containerDefinitions kw)"
| "registered_container_names _ = []"

fun bound_container_names :: "call \<Rightarrow> string list" where
  "bound_container_names (EcsCreateService req) =
     map lb_containerName (cs_loadBalancers req)"
| "bound_container_names _ = []"

text \<open>
  The same state with other values in the parameter store, and the programs that cannot
  tell: run on a store with the same paths they return the same result and leave the same
  state, but for the store, which they do not change.
\<close>

definition with_parameters :: "(string \<rightharpoonup> string) \<Rightarrow> state \<Rightarrow> state" where
  "with_parameters ps s = s\<lparr>env := (env s)\<lparr>parameters := ps\<rparr>\<rparr>"

definition blind :: "'a prog \<Rightarrow> bool" where
  "blind m =
     (\<forall>s ps. dom ps = dom (parameters (env s)) \<longrightarrow>
        m (with_parameters ps s) = (fst (m s), with_parameters ps (snd (m s))) \<and>
        parameters (env (snd (m s))) = parameters (env s))"

section \<open>What each function does\<close>

text \<open>
  Each function of the script is straight-line code over the services, so its result and
  the state it leaves can be written down in closed form, or, for the loop over the
  mapping, bounded: the loop issues no mutating call and leaves the world as it was.
\<close>

subsection \<open>The combinators\<close>

lemma bind_ret [simp]: "bind (ret x) f = f x"
  by (rule ext) (simp add: bind_def ret_def)

lemma bind_print [simp]: "bind (print_msg m) f s = f () (s\<lparr>stdout := stdout s @ [m]\<rparr>)"
  by (simp add: bind_def print_msg_def)

subsection \<open>Closed forms\<close>

lemma describe_services_run:
  "ecs_describe_services c [n] s =
     (Inr (case services (env s) (c, n) of None \<Rightarrow> [] | Some sv \<Rightarrow> [sv]),
      s\<lparr>calls := calls s @ [EcsDescribeServices c [n]]\<rparr>)"
  by (simp add: ecs_describe_services_def request_def List.map_filter_def split: option.splits)

lemma get_account_id_run:
  "get_account_id s = (Inr (account (env s)), s\<lparr>calls := calls s @ [StsGetCallerIdentity]\<rparr>)"
  by (simp add: get_account_id_def sts_get_caller_identity_def request_def)

lemma get_ssm_parameter_arn_run:
  "get_ssm_parameter_arn (YStr p) s =
     (case parameters (env s) p of
        None \<Rightarrow>
          (Inl (SysExit 1),
           s\<lparr>calls := calls s @ [SsmGetParameter p],
             stdout := stdout s @ [MsgParametroNoExiste p]\<rparr>)
      | Some v \<Rightarrow>
          (Inr (ssm_parameter_arn (region_name (env s)) (account (env s)) p),
           s\<lparr>calls := calls s @ [SsmGetParameter p, StsGetCallerIdentity]\<rparr>))"
  by (simp add: get_ssm_parameter_arn_def try_except_def bind_def ssm_get_parameter_def
      request_def session_region_name_def get_account_id_run ret_def sys_exit_def print_msg_def
      split: option.splits)

lemma get_or_create_target_group_run:
  "get_or_create_target_group vpc_id project_name port s =
     (case target_groups (env s) (project_name @ ''-tg'') of
        Some arn \<Rightarrow>
          (Inr arn,
           s\<lparr>calls := calls s @ [ElbDescribeTargetGroups [project_name @ ''-tg'']],
             stdout := stdout s @ [MsgTargetGroupEncontrado (project_name @ ''-tg'')]\<rparr>)
      | None \<Rightarrow>
          (Inr (assign_target_group_arn (env s) (project_name @ ''-tg'')),
           s\<lparr>env := (env s)\<lparr>target_groups := (target_groups (env s))
                      (project_name @ ''-tg'' \<mapsto>
                         assign_target_group_arn (env s) (project_name @ ''-tg''))\<rparr>,
             calls := calls s @
               [ElbDescribeTargetGroups [project_name @ ''-tg''],
                ElbCreateTargetGroup (create_target_group_kwargs (project_name @ ''-tg'') port vpc_id)],
             stdout := stdout s @ [MsgTargetGroupNoExiste (project_name @ ''-tg'')]\<rparr>))"
  by (simp add: get_or_create_target_group_def Let_def try_except_def bind_def
      elbv2_describe_target_groups_def elbv2_create_target_group_def request_def index0_def
      ret_def raise_def print_msg_def create_target_group_kwargs_def
      split: option.splits)

lemma load_env_map_run:
  "load_env_map path s =
     (case files (env s) path of
        Unreadable \<Rightarrow> (Inl (SysExit 1), s\<lparr>stdout := stdout s @ [MsgErrorLeyendo path OSError]\<rparr>)
      | Malformed \<Rightarrow> (Inl (SysExit 1), s\<lparr>stdout := stdout s @ [MsgErrorLeyendo path YAMLError]\<rparr>)
      | Document d \<Rightarrow>
          (case d of
             YMap kvs \<Rightarrow>
               (case map_of kvs ''variables'' of
                  Some x \<Rightarrow> (Inr x, s)
                | None \<Rightarrow>
                    (Inl (SysExit 1), s\<lparr>stdout := stdout s @ [MsgErrorLeyendo path KeyError]\<rparr>))
           | _ \<Rightarrow> (Inl (SysExit 1), s\<lparr>stdout := stdout s @ [MsgErrorLeyendo path TypeError]\<rparr>)))"
  by (simp add: load_env_map_def try_except_def bind_def open_and_safe_load_def subscript_def
      ret_def raise_def sys_exit_def print_msg_def
      split: file_load.splits yaml.splits option.splits)

subsection \<open>The calls of a run\<close>

text \<open>
  What a function adds to the list of calls, and what \<open>main\<close> adds in all: calls that
  register nothing and touch no service, then, in a run that reaches the end, the
  registration, the two descriptions and one creation or update.
\<close>

lemma get_ssm_parameter_arn_frame:
  assumes "get_ssm_parameter_arn v s = (r, s')"
  shows "env s' = env s \<and> (\<exists>xs. calls s' = calls s @ xs \<and> filter mutating xs = [])"
proof (cases v)
  case (YStr p)
  with assms show ?thesis
    by (auto simp: get_ssm_parameter_arn_run split: option.splits)
qed (use assms in \<open>auto simp: get_ssm_parameter_arn_def raise_def\<close>)

lemma secrets_loop_frame:
  "secrets_loop kvs acc s = (r, s') \<Longrightarrow>
     env s' = env s \<and> (\<exists>xs. calls s' = calls s @ xs \<and> filter mutating xs = [])"
proof (induction kvs arbitrary: acc s)
  case Nil
  then show ?case by (simp add: ret_def)
next
  case (Cons kv kvs)
  obtain k v where kv: "kv = (k, v)" by (cases kv)
  obtain r1 s1 where step: "get_ssm_parameter_arn v s = (r1, s1)"
    by (cases "get_ssm_parameter_arn v s")
  from get_ssm_parameter_arn_frame [OF step]
  obtain xs where s1: "env s1 = env s" "calls s1 = calls s @ xs" "filter mutating xs = []"
    by blast
  show ?case
  proof (cases r1)
    case (Inl a)
    with Cons.prems kv step s1 show ?thesis
      by (auto simp: bind_def)
  next
    case (Inr arn)
    with Cons.prems kv step have "secrets_loop kvs (acc @ [(k, arn)]) s1 = (r, s')"
      by (simp add: bind_def)
    from Cons.IH [OF this] s1 show ?thesis
      by auto
  qed
qed

lemma secrets_loop_missing:
  "List.find (\<lambda>p. parameters (env s) p = None) (map snd ps) = Some p \<Longrightarrow>
     \<exists>xs. secrets_loop (map (\<lambda>(k, p). (k, YStr p)) ps) acc s =
            (Inl (SysExit 1),
             s\<lparr>calls := calls s @ xs, stdout := stdout s @ [MsgParametroNoExiste p]\<rparr>)
          \<and> filter mutating xs = []"
proof (induction ps arbitrary: acc s)
  case Nil
  then show ?case by simp
next
  case (Cons kp ps)
  obtain k q where kp: "kp = (k, q)" by (cases kp)
  show ?case
  proof (cases "parameters (env s) q")
    case None
    with Cons.prems kp have "q = p" by simp
    with None kp show ?thesis
      by (auto simp: bind_def get_ssm_parameter_arn_run intro!: exI [of _ "[SsmGetParameter p]"])
  next
    case (Some v)
    let ?s1 = "s\<lparr>calls := calls s @ [SsmGetParameter q, StsGetCallerIdentity]\<rparr>"
    from Some Cons.prems kp
    have "List.find (\<lambda>p. parameters (env ?s1) p = None) (map snd ps) = Some p"
      by simp
    from Cons.IH [OF this, of "acc @ [(k, ssm_parameter_arn (region_name (env s)) (account (env s)) q)]"]
    obtain xs where
      "secrets_loop (map (\<lambda>(k, p). (k, YStr p)) ps)
         (acc @ [(k, ssm_parameter_arn (region_name (env s)) (account (env s)) q)]) ?s1 =
        (Inl (SysExit 1),
         ?s1\<lparr>calls := calls ?s1 @ xs, stdout := stdout ?s1 @ [MsgParametroNoExiste p]\<rparr>)"
      "filter mutating xs = []"
      by blast
    with Some kp show ?thesis
      by (auto simp: bind_def get_ssm_parameter_arn_run
          intro!: exI [of _ "[SsmGetParameter q, StsGetCallerIdentity] @ xs"])
  qed
qed

lemma not_mutating_filters:
  "filter mutating xs = [] \<Longrightarrow>
     filter is_register xs = [] \<and> filter is_create_service xs = [] \<and> filter is_update_service xs = []"
proof (induction xs)
  case (Cons c cs)
  then show ?case by (cases c) (auto split: if_splits)
qed simp

lemma deploy_service_calls:
  "calls (snd (deploy_service c n td tg sn sg s)) =
     calls s @ [EcsDescribeServices c [n], EcsDescribeServices c [n],
       if service_present (env s) c n then EcsUpdateService (update_service_kwargs c n td)
       else EcsCreateService (create_service_kwargs c n td tg sn sg)]"
  by (simp add: deploy_service_def describe_services_run bind_def try_except_def index0_def
      ret_def raise_def ecs_update_service_def ecs_create_service_def request_def print_msg_def
      update_service_kwargs_def create_service_kwargs_def
      service_present_def
      split: option.splits)

lemma deploy_service_result:
  "fst (deploy_service c n td tg sn sg s) = Inr ()"
  by (simp add: deploy_service_def describe_services_run bind_def try_except_def index0_def
      ret_def raise_def ecs_update_service_def ecs_create_service_def request_def print_msg_def
      update_service_kwargs_def create_service_kwargs_def
      split: option.splits)

lemma deploy_service_stdout:
  "stdout (snd (deploy_service c n td tg sn sg s)) =
     stdout s @ [MsgIniciandoDespliegue n,
       if service_present (env s) c n then MsgServicioExiste else MsgServicioNoExiste,
       MsgOrdenEnviada]"
  by (simp add: deploy_service_def describe_services_run bind_def try_except_def index0_def
      ret_def raise_def ecs_update_service_def ecs_create_service_def request_def print_msg_def
      update_service_kwargs_def create_service_kwargs_def
      service_present_def
      split: option.splits)

lemma load_env_map_frame:
  assumes "load_env_map path s = (r, s')"
  shows "env s' = env s \<and> calls s' = calls s"
  using assms
  by (auto simp: load_env_map_run split: file_load.splits yaml.splits option.splits)

lemma get_or_create_target_group_frame:
  "\<exists>arn s' xs. get_or_create_target_group v p port s = (Inr arn, s') \<and>
     calls s' = calls s @ xs \<and> filter is_register xs = [] \<and>
     filter is_create_service xs = [] \<and> filter is_update_service xs = [] \<and>
     parameters (env s') = parameters (env s) \<and> files (env s') = files (env s)"
  by (cases "target_groups (env s) (p @ ''-tg'')")
    (simp_all add: get_or_create_target_group_run)

lemma register_task_definition_frame:
  assumes "register_task_definition i p role m s = (r, s')"
  shows "\<exists>xs. filter mutating xs = [] \<and>
           (case r of
              Inl _ \<Rightarrow> calls s' = calls s @ xs
            | Inr _ \<Rightarrow> (\<exists>secrets_config. calls s' = calls s @ xs @
                [EcsRegisterTaskDefinition
                   (register_task_definition_kwargs i p role secrets_config
                      (region_name (env s)))]))"
proof (cases m)
  case (YMap kvs)
  let ?s0 = "s\<lparr>stdout := stdout s @ [MsgGenerandoSecretos]\<rparr>"
  obtain r1 s1 where loop: "secrets_loop kvs [] ?s0 = (r1, s1)"
    by (cases "secrets_loop kvs [] ?s0")
  from secrets_loop_frame [OF loop]
  obtain xs where xs: "calls s1 = calls s @ xs" "filter mutating xs = []" "env s1 = env s"
    by auto
  show ?thesis
  proof (cases r1)
    case (Inl a)
    with assms YMap loop xs show ?thesis
      by (auto simp: register_task_definition_def items_def bind_def print_msg_def ret_def)
  next
    case (Inr secrets_config)
    with assms YMap loop xs show ?thesis
      by (auto simp: register_task_definition_def items_def bind_def session_region_name_def
          ecs_register_task_definition_def request_def print_msg_def ret_def)
  qed
qed (use assms in \<open>auto simp: register_task_definition_def items_def raise_def bind_def print_msg_def\<close>)

lemma main_shape:
  assumes "main a s = (r, s')"
  shows "\<exists>ys. filter is_register ys = [] \<and> filter is_create_service ys = [] \<and>
           filter is_update_service ys = [] \<and>
           (case r of
              Inl _ \<Rightarrow> calls s' = calls s @ ys
            | Inr _ \<Rightarrow>
                (\<exists>role secrets_config td_arn tg_arn present.
                   calls s' = calls s @ ys @
                     [EcsRegisterTaskDefinition
                        (register_task_definition_kwargs (arg_image a) (arg_project a) role
                           secrets_config (region_name (env s))),
                      EcsDescribeServices (arg_cluster a) [arg_project a @ ''-service''],
                      EcsDescribeServices (arg_cluster a) [arg_project a @ ''-service''],
                      if present
                      then EcsUpdateService
                        (update_service_kwargs (arg_cluster a) (arg_project a @ ''-service'') td_arn)
                      else EcsCreateService
                        (create_service_kwargs (arg_cluster a) (arg_project a @ ''-service'') td_arn
                           tg_arn (str_split CHR '','' (arg_subnets a))
                           (str_split CHR '','' (arg_security_groups a)))]))"
proof -
  let ?s0 = "s\<lparr>stdout := stdout s @ [MsgIniciandoScript (arg_project a)]\<rparr>"
  obtain r1 s1 where load: "load_env_map (arg_env_yml a) ?s0 = (r1, s1)"
    by (cases "load_env_map (arg_env_yml a) ?s0")
  from load_env_map_frame [OF load] have s1: "calls s1 = calls s" "env s1 = env s"
    by simp_all
  show ?thesis
  proof (cases r1)
    case (Inl e)
    with assms load s1 show ?thesis
      by (auto simp: main_def bind_def print_msg_def)
  next
    case (Inr env_map)
    obtain tg_arn s2 xs2 where
      tg: "get_or_create_target_group (arg_vpc_id a) (arg_project a) 8000 s1 = (Inr tg_arn, s2)"
      and s2: "calls s2 = calls s1 @ xs2" "filter is_register xs2 = []"
        "filter is_create_service xs2 = []" "filter is_update_service xs2 = []"
      and region: "region_name (env s2) = region_name (env s1)"
      by (cases "target_groups (env s1) (arg_project a @ ''-tg'')")
        (simp_all add: get_or_create_target_group_run)
    let ?s3 = "s2\<lparr>calls := calls s2 @ [StsGetCallerIdentity]\<rparr>"
    let ?role = "''arn:aws:iam::'' @ account (env s2) @ '':role/ecsTaskExecutionRole''"
    obtain r4 s4 where
      reg: "register_task_definition (arg_image a) (arg_project a) ?role env_map ?s3 = (r4, s4)"
      by (cases "register_task_definition (arg_image a) (arg_project a) ?role env_map ?s3")
    from register_task_definition_frame [OF reg]
    obtain xs4 where xs4: "filter mutating xs4 = []"
      "case r4 of Inl _ \<Rightarrow> calls s4 = calls ?s3 @ xs4
       | Inr _ \<Rightarrow> (\<exists>secrets_config. calls s4 = calls ?s3 @ xs4 @
                [EcsRegisterTaskDefinition
                   (register_task_definition_kwargs (arg_image a) (arg_project a) ?role
                      secrets_config (region_name (env ?s3)))])"
      by blast
    note quiet = not_mutating_filters [OF xs4(1)]
    show ?thesis
    proof (cases r4)
      case (Inl e)
      with assms load \<open>r1 = Inr env_map\<close> tg reg
      have "r = Inl e" "s' = s4"
        by (auto simp: main_def bind_def print_msg_def get_account_id_run)
      with Inl xs4 s1 s2 quiet show ?thesis
        by simp
    next
      case (Inr td_arn)
      let ?d = "deploy_service (arg_cluster a) (arg_project a @ ''-service'') td_arn tg_arn
                  (str_split CHR '','' (arg_subnets a))
                  (str_split CHR '','' (arg_security_groups a)) s4"
      obtain s5 where dep: "?d = (Inr (), s5)"
        using deploy_service_result [of "arg_cluster a" "arg_project a @ ''-service''" td_arn
            tg_arn "str_split CHR '','' (arg_subnets a)"
            "str_split CHR '','' (arg_security_groups a)" s4]
        by (cases ?d) auto
      from deploy_service_calls [of "arg_cluster a" "arg_project a @ ''-service''" td_arn
            tg_arn "str_split CHR '','' (arg_subnets a)"
            "str_split CHR '','' (arg_security_groups a)" s4] dep
      have s5: "calls s5 = calls s4 @
          [EcsDescribeServices (arg_cluster a) [arg_project a @ ''-service''],
           EcsDescribeServices (arg_cluster a) [arg_project a @ ''-service''],
           if service_present (env s4) (arg_cluster a) (arg_project a @ ''-service'')
           then EcsUpdateService
             (update_service_kwargs (arg_cluster a) (arg_project a @ ''-service'') td_arn)
           else EcsCreateService
             (create_service_kwargs (arg_cluster a) (arg_project a @ ''-service'') td_arn
                tg_arn (str_split CHR '','' (arg_subnets a))
                (str_split CHR '','' (arg_security_groups a)))]"
        by simp
      from assms load \<open>r1 = Inr env_map\<close> tg reg Inr dep
      have r: "r = Inr ()" "calls s' = calls s5"
        by (auto simp: main_def bind_def print_msg_def get_account_id_run)
      from Inr xs4 obtain secrets_config where s4: "calls s4 = calls ?s3 @ xs4 @
                [EcsRegisterTaskDefinition
                   (register_task_definition_kwargs (arg_image a) (arg_project a) ?role
                      secrets_config (region_name (env s)))]"
        using region s1 by auto
      have "filter is_register (xs2 @ StsGetCallerIdentity # xs4) = []"
        "filter is_create_service (xs2 @ StsGetCallerIdentity # xs4) = []"
        "filter is_update_service (xs2 @ StsGetCallerIdentity # xs4) = []"
        using s2 quiet by simp_all
      moreover have "calls s' = calls s @ (xs2 @ StsGetCallerIdentity # xs4) @
                     [EcsRegisterTaskDefinition
                        (register_task_definition_kwargs (arg_image a) (arg_project a) ?role
                           secrets_config (region_name (env s))),
                      EcsDescribeServices (arg_cluster a) [arg_project a @ ''-service''],
                      EcsDescribeServices (arg_cluster a) [arg_project a @ ''-service''],
                      if service_present (env s4) (arg_cluster a) (arg_project a @ ''-service'')
                      then EcsUpdateService
                        (update_service_kwargs (arg_cluster a) (arg_project a @ ''-service'') td_arn)
                      else EcsCreateService
                        (create_service_kwargs (arg_cluster a) (arg_project a @ ''-service'') td_arn
                           tg_arn (str_split CHR '','' (arg_subnets a))
                           (str_split CHR '','' (arg_security_groups a)))]"
        using r s5 s4 s2 s1 by simp
      ultimately show ?thesis
        using r by (intro exI [of _ "xs2 @ StsGetCallerIdentity # xs4"]) auto
    qed
  qed
qed

lemmas run_defs =
  main_def bind_def print_msg_def process_start_def load_env_map_run
  get_or_create_target_group_run get_account_id_run register_task_definition_def items_def
  ret_def raise_def get_ssm_parameter_arn_run session_region_name_def
  ecs_register_task_definition_def request_def deploy_service_def describe_services_run
  try_except_def index0_def ecs_update_service_def ecs_create_service_def

lemma example_run:
  "fst (main example_args (process_start example_world)) = Inr ()"
  by (simp add: run_defs example_world_def example_args_def)

lemma register_task_definition_missing:
  assumes "List.find (\<lambda>p. parameters (env s) p = None) (map snd ps) = Some p"
  shows "\<exists>xs. register_task_definition i pr role (YMap (map (\<lambda>(k, p). (k, YStr p)) ps)) s =
            (Inl (SysExit 1),
             s\<lparr>calls := calls s @ xs,
               stdout := stdout s @ [MsgGenerandoSecretos, MsgParametroNoExiste p]\<rparr>)
          \<and> filter mutating xs = []"
proof -
  let ?s0 = "s\<lparr>stdout := stdout s @ [MsgGenerandoSecretos]\<rparr>"
  from assms have "List.find (\<lambda>p. parameters (env ?s0) p = None) (map snd ps) = Some p"
    by simp
  from secrets_loop_missing [OF this, of "[]"]
  obtain xs where
    "secrets_loop (map (\<lambda>(k, p). (k, YStr p)) ps) [] ?s0 =
       (Inl (SysExit 1),
        ?s0\<lparr>calls := calls ?s0 @ xs, stdout := stdout ?s0 @ [MsgParametroNoExiste p]\<rparr>)"
    "filter mutating xs = []"
    by blast
  then show ?thesis
    by (auto simp: register_task_definition_def items_def bind_def print_msg_def ret_def)
qed

subsection \<open>Splitting and joining\<close>

text \<open>
  \<open>str_split\<close> is the inverse of joining pieces that hold no separator: the pieces
  it returns hold none and join to the string, and it returns any such pieces from their
  join.
\<close>

lemma str_split_not_Nil [simp]: "str_split sep s \<noteq> []"
  by (induction s) (auto split: list.splits)

lemma str_join_split: "str_join [sep] (str_split sep s) = s"
proof (induction s)
  case Nil
  then show ?case by simp
next
  case (Cons c cs)
  obtain w ws where ws: "str_split sep cs = w # ws"
    by (cases "str_split sep cs") simp_all
  with Cons show ?case
    by (cases ws) auto
qed

lemma str_split_pieces: "w \<in> set (str_split sep s) \<Longrightarrow> sep \<notin> set w"
proof (induction s arbitrary: w)
  case Nil
  then show ?case by simp
next
  case (Cons c cs)
  then show ?case
    by (cases "str_split sep cs") (auto split: if_splits)
qed

lemma length_str_split: "length (str_split sep s) = Suc (count_list s sep)"
proof (induction s)
  case (Cons c cs)
  then show ?case by (cases "str_split sep cs") auto
qed simp

lemma str_split_no_sep: "sep \<notin> set x \<Longrightarrow> str_split sep x = [x]"
  by (induction x) auto

lemma str_split_append_sep:
  "sep \<notin> set x \<Longrightarrow> str_split sep (x @ sep # r) = x # str_split sep r"
  by (induction x) auto

lemma str_split_unique:
  "ws \<noteq> [] \<Longrightarrow> \<forall>w \<in> set ws. sep \<notin> set w \<Longrightarrow> str_split sep (str_join [sep] ws) = ws"
proof (induction ws)
  case Nil
  then show ?case by simp
next
  case (Cons x ws)
  then show ?case
    by (cases ws) (simp_all add: str_split_no_sep str_split_append_sep)
qed

lemma example_run_calls:
  "calls (snd (main example_args (process_start example_world))) =
     [ElbDescribeTargetGroups [''app-tg''],
      ElbCreateTargetGroup (create_target_group_kwargs ''app-tg'' 8000 ''vpc-1''),
      StsGetCallerIdentity, SsmGetParameter ''/prod/db_pass'', StsGetCallerIdentity,
      EcsRegisterTaskDefinition
        (register_task_definition_kwargs ''registry/app:1'' ''app''
           ''arn:aws:iam::123456789012:role/ecsTaskExecutionRole''
           [(''DB_PASS'', ''arn:aws:ssm:us-east-1:123456789012:parameter/prod/db_pass'')]
           ''us-east-1''),
      EcsDescribeServices ''main'' [''app-service''],
      EcsDescribeServices ''main'' [''app-service''],
      EcsCreateService
        (create_service_kwargs ''main'' ''app-service'' ''arn:aws:ecs:task-definition/app:I''
           ''arn:aws:elasticloadbalancing:targetgroup/app-tg''
           [''subnet-a'', ''subnet-b'', ''''] [''''])]"
  by (simp add: run_defs example_world_def example_args_def ssm_parameter_arn_def
      create_target_group_kwargs_def register_task_definition_kwargs_def
      create_service_kwargs_def update_service_kwargs_def)

subsection \<open>The configuration stage\<close>

lemma load_env_map_fails:
  assumes "files (env s) path = Unreadable \<or>
           files (env s) path = Malformed \<or>
           (\<exists>d. files (env s) path = Document d \<and>
                (\<forall>kvs. d = YMap kvs \<longrightarrow> map_of kvs ''variables'' = None))"
  shows "\<exists>e. load_env_map path s =
           (Inl (SysExit 1), s\<lparr>stdout := stdout s @ [MsgErrorLeyendo path e]\<rparr>)"
  using assms
proof (elim disjE exE conjE)
  fix d
  assume "files (env s) path = Document d"
    and "\<forall>kvs. d = YMap kvs \<longrightarrow> map_of kvs ''variables'' = None"
  then show ?thesis
    by (cases d) (auto simp: load_env_map_run)
qed (auto simp: load_env_map_run)

lemma get_ssm_parameter_arn_quiet:
  "filter is_config_error (stdout (snd (get_ssm_parameter_arn v s))) =
     filter is_config_error (stdout s)"
proof (cases v)
  case (YStr p)
  then show ?thesis
    by (simp add: get_ssm_parameter_arn_run split: option.splits)
qed (simp_all add: get_ssm_parameter_arn_def raise_def)

lemma secrets_loop_quiet:
  "filter is_config_error (stdout (snd (secrets_loop kvs acc s))) =
     filter is_config_error (stdout s)"
proof (induction kvs arbitrary: acc s)
  case Nil
  then show ?case by (simp add: ret_def)
next
  case (Cons kv kvs)
  obtain k v where kv: "kv = (k, v)" by (cases kv)
  obtain r1 s1 where step: "get_ssm_parameter_arn v s = (r1, s1)"
    by (cases "get_ssm_parameter_arn v s")
  from get_ssm_parameter_arn_quiet [of v s] step
  have s1: "filter is_config_error (stdout s1) = filter is_config_error (stdout s)"
    by simp
  show ?case
  proof (cases r1)
    case (Inl a)
    with kv step s1 show ?thesis by (simp add: bind_def)
  next
    case (Inr arn)
    with kv step s1 Cons.IH [of "acc @ [(k, arn)]" s1] show ?thesis
      by (simp add: bind_def)
  qed
qed

lemma register_task_definition_quiet:
  "filter is_config_error (stdout (snd (register_task_definition i p role m s))) =
     filter is_config_error (stdout s)"
proof (cases m)
  case (YMap kvs)
  let ?s0 = "s\<lparr>stdout := stdout s @ [MsgGenerandoSecretos]\<rparr>"
  obtain r1 s1 where loop: "secrets_loop kvs [] ?s0 = (r1, s1)"
    by (cases "secrets_loop kvs [] ?s0")
  from secrets_loop_quiet [of kvs "[]" ?s0] loop
  have s1: "filter is_config_error (stdout s1) = filter is_config_error (stdout s)"
    by simp
  show ?thesis
  proof (cases r1)
    case (Inl a)
    with YMap loop s1 show ?thesis
      by (simp add: register_task_definition_def items_def bind_def print_msg_def ret_def)
  next
    case (Inr secrets_config)
    with YMap loop s1 show ?thesis
      by (simp add: register_task_definition_def items_def bind_def session_region_name_def
          ecs_register_task_definition_def request_def print_msg_def ret_def)
  qed
qed (simp_all add: register_task_definition_def items_def raise_def bind_def print_msg_def)

lemma get_or_create_target_group_quiet:
  "filter is_config_error (stdout (snd (get_or_create_target_group v p port s))) =
     filter is_config_error (stdout s)"
  by (simp add: get_or_create_target_group_run split: option.splits)

lemma deploy_service_quiet:
  "filter is_config_error (stdout (snd (deploy_service c n td tg sn sg s))) =
     filter is_config_error (stdout s)"
  by (simp add: deploy_service_stdout)

lemma main_after_load_quiet:
  assumes "load_env_map (arg_env_yml a) (s\<lparr>stdout := stdout s @ [MsgIniciandoScript (arg_project a)]\<rparr>)
             = (Inr env_map, s1)"
  shows "filter is_config_error (stdout (snd (main a s))) = filter is_config_error (stdout s)"
proof -
  from load_env_map_run [of "arg_env_yml a"
      "s\<lparr>stdout := stdout s @ [MsgIniciandoScript (arg_project a)]\<rparr>"] assms
  have s1: "s1 = s\<lparr>stdout := stdout s @ [MsgIniciandoScript (arg_project a)]\<rparr>"
    by (auto split: file_load.splits yaml.splits option.splits)
  obtain tg_arn s2 where
    tg: "get_or_create_target_group (arg_vpc_id a) (arg_project a) 8000 s1 = (Inr tg_arn, s2)"
    using get_or_create_target_group_frame by blast
  from get_or_create_target_group_quiet [of "arg_vpc_id a" "arg_project a" 8000 s1] tg s1
  have s2: "filter is_config_error (stdout s2) = filter is_config_error (stdout s)"
    by simp
  let ?s3 = "s2\<lparr>calls := calls s2 @ [StsGetCallerIdentity]\<rparr>"
  let ?role = "''arn:aws:iam::'' @ account (env s2) @ '':role/ecsTaskExecutionRole''"
  obtain r4 s4 where
    reg: "register_task_definition (arg_image a) (arg_project a) ?role env_map ?s3 = (r4, s4)"
    by (cases "register_task_definition (arg_image a) (arg_project a) ?role env_map ?s3")
  from register_task_definition_quiet [of "arg_image a" "arg_project a" ?role env_map ?s3] reg s2
  have s4: "filter is_config_error (stdout s4) = filter is_config_error (stdout s)"
    by simp
  show ?thesis
  proof (cases r4)
    case (Inl e)
    with assms tg reg s4 show ?thesis
      by (simp add: main_def bind_def print_msg_def get_account_id_run)
  next
    case (Inr td_arn)
    let ?d = "deploy_service (arg_cluster a) (arg_project a @ ''-service'') td_arn tg_arn
                  (str_split CHR '','' (arg_subnets a))
                  (str_split CHR '','' (arg_security_groups a)) s4"
    obtain s5 where dep: "?d = (Inr (), s5)"
      using deploy_service_result [of "arg_cluster a" "arg_project a @ ''-service''" td_arn
            tg_arn "str_split CHR '','' (arg_subnets a)"
            "str_split CHR '','' (arg_security_groups a)" s4]
      by (cases ?d) auto
    from deploy_service_quiet [of "arg_cluster a" "arg_project a @ ''-service''" td_arn
            tg_arn "str_split CHR '','' (arg_subnets a)"
            "str_split CHR '','' (arg_security_groups a)" s4] dep s4
    have s5: "filter is_config_error (stdout s5) = filter is_config_error (stdout s)"
      by simp
    from assms tg reg Inr dep s5 show ?thesis
      by (simp add: main_def bind_def print_msg_def get_account_id_run)
  qed
qed

lemma read_variables_raises:
  "(\<exists>e. fst (bind (open_and_safe_load path) (\<lambda>d. subscript d ''variables'') s) =
          Inl (Uncaught e)) =
   (case files (env s) path of
      Unreadable \<Rightarrow> True
    | Malformed \<Rightarrow> True
    | Document d \<Rightarrow> (case d of YMap kvs \<Rightarrow> map_of kvs ''variables'' = None | _ \<Rightarrow> True))"
  by (simp add: bind_def open_and_safe_load_def subscript_def raise_def ret_def
      split: file_load.splits yaml.splits option.splits)

lemma load_env_map_exit:
  "(fst (load_env_map path s) = Inl (SysExit 1)) =
   (case files (env s) path of
      Unreadable \<Rightarrow> True
    | Malformed \<Rightarrow> True
    | Document d \<Rightarrow> (case d of YMap kvs \<Rightarrow> map_of kvs ''variables'' = None | _ \<Rightarrow> True))"
  by (simp add: load_env_map_run split: file_load.splits yaml.splits option.splits)

lemma main_config_error_printed:
  "(\<exists>e. MsgErrorLeyendo (arg_env_yml a) e \<in> set (stdout (snd (main a (process_start w))))) =
   (fst (load_env_map (arg_env_yml a) (process_start w)) = Inl (SysExit 1))"
proof -
  let ?s0 = "(process_start w)\<lparr>stdout := stdout (process_start w) @
               [MsgIniciandoScript (arg_project a)]\<rparr>"
  obtain r1 s1 where load: "load_env_map (arg_env_yml a) ?s0 = (r1, s1)"
    by (cases "load_env_map (arg_env_yml a) ?s0")
  have same: "fst (load_env_map (arg_env_yml a) (process_start w)) = r1"
    using load by (auto simp: load_env_map_run split: file_load.splits yaml.splits option.splits)
  show ?thesis
  proof (cases r1)
    case (Inl x)
    with load have "\<exists>e. r1 = Inl (SysExit 1) \<and>
        s1 = ?s0\<lparr>stdout := stdout ?s0 @ [MsgErrorLeyendo (arg_env_yml a) e]\<rparr>"
      by (auto simp: load_env_map_run split: file_load.splits yaml.splits option.splits)
    then obtain e where e: "r1 = Inl (SysExit 1)"
      "s1 = ?s0\<lparr>stdout := stdout ?s0 @ [MsgErrorLeyendo (arg_env_yml a) e]\<rparr>"
      by blast
    with load have "stdout (snd (main a (process_start w))) =
        [MsgIniciandoScript (arg_project a), MsgErrorLeyendo (arg_env_yml a) e]"
      by (simp add: main_def bind_def print_msg_def process_start_def)
    with same e show ?thesis by auto
  next
    case (Inr env_map)
    with load main_after_load_quiet [of a "process_start w" env_map s1]
    have "filter is_config_error (stdout (snd (main a (process_start w)))) = []"
      by (simp add: process_start_def)
    then have "\<not> (\<exists>e. MsgErrorLeyendo (arg_env_yml a) e
        \<in> set (stdout (snd (main a (process_start w)))))"
      by (auto simp: filter_empty_conv)
    with same Inr show ?thesis by simp
  qed
qed

lemma main_not_a_mapping:
  assumes "files w (arg_env_yml a) = Document (YMap doc)"
    and "map_of doc ''variables'' = Some v"
    and "\<not> is_mapping v"
  shows "fst (main a (process_start w)) = Inl (Uncaught AttributeError)"
proof -
  from assms(3) have items: "items v = raise AttributeError"
    by (cases v) (simp_all add: items_def)
  show ?thesis
    using assms(1,2)
    by (cases "target_groups w (arg_project a @ ''-tg'')")
      (simp_all add: main_def bind_def print_msg_def process_start_def load_env_map_run
        get_or_create_target_group_run get_account_id_run register_task_definition_def
        items raise_def)
qed

subsection \<open>Replacing the suffix of the service name\<close>

text \<open>
  An occurrence of \<open>old\<close> at the front of \<open>p @ old\<close> lies in \<open>p\<close> or shows the
  first character of \<open>old\<close> again further on in it; the first character of
  \<open>-service\<close> occurs in it once.
\<close>

lemma take_old_not_at_front:
  assumes "c \<notin> set r" and "\<not> (\<exists>u v. a # p = u @ (c # r) @ v)"
  shows "take (Suc (length r)) (a # p @ c # r) \<noteq> c # r"
proof
  assume eq: "take (Suc (length r)) (a # p @ c # r) = c # r"
  then have a: "a = c" and t: "take (length r) (p @ c # r) = r"
    by simp_all
  show False
  proof (cases "length r \<le> length p")
    case True
    with t have "take (length r) p = r" by simp
    then have "p = r @ drop (length r) p"
      by (metis append_take_drop_id)
    with a have "a # p = [] @ (c # r) @ drop (length r) p" by simp
    with assms(2) show False by blast
  next
    case False
    then have "take (length r) (p @ c # r) = p @ c # take (length r - Suc (length p)) r"
      by (simp add: take_Cons')
    with t have "c \<in> set r"
      by (metis in_set_conv_decomp)
    with assms(1) show False by simp
  qed
qed

lemma str_replace_suffix:
  assumes "c \<notin> set r"
  shows "\<not> (\<exists>u v. p = u @ (c # r) @ v) \<Longrightarrow> str_replace (c # r) new (p @ c # r) = p @ new"
proof (induction p)
  case Nil
  then show ?case by simp
next
  case (Cons a p)
  have "\<not> (\<exists>u v. p = u @ (c # r) @ v)"
  proof
    assume "\<exists>u v. p = u @ (c # r) @ v"
    then obtain u v where "p = u @ (c # r) @ v" by blast
    then have "a # p = (a # u) @ (c # r) @ v" by simp
    with Cons.prems show False by blast
  qed
  with Cons.IH have ih: "str_replace (c # r) new (p @ c # r) = p @ new" by simp
  from take_old_not_at_front [OF assms Cons.prems]
  have "take (Suc (length r)) (a # p @ c # r) \<noteq> c # r" .
  with ih show ?case by auto
qed

lemma strip_service_suffix:
  "\<not> (\<exists>u v. p = u @ ''-service'' @ v) \<Longrightarrow> str_replace ''-service'' [] (p @ ''-service'') = p"
  using str_replace_suffix [of "CHR ''-''" "''service''" p "[]"] by simp

lemma no_register_no_names:
  "filter is_register ys = [] \<Longrightarrow> concat (map registered_container_names ys) = []"
proof (induction ys)
  case (Cons c cs)
  then show ?case by (cases c) (auto split: if_splits)
qed simp

lemma no_create_no_names:
  "filter is_create_service ys = [] \<Longrightarrow> concat (map bound_container_names ys) = []"
proof (induction ys)
  case (Cons c cs)
  then show ?case by (cases c) (auto split: if_splits)
qed simp

subsection \<open>Programs that cannot tell the values of the parameters\<close>

lemma blindI:
  assumes "\<And>s ps. dom ps = dom (parameters (env s)) \<Longrightarrow>
             m (with_parameters ps s) = (fst (m s), with_parameters ps (snd (m s)))"
    and "\<And>s. parameters (env (snd (m s))) = parameters (env s)"
  shows "blind m"
  using assms by (simp add: blind_def)

lemma blind_run:
  assumes "blind m" and "dom ps = dom (parameters (env s))"
  shows "m (with_parameters ps s) = (fst (m s), with_parameters ps (snd (m s)))"
  using assms by (simp add: blind_def)

lemma blind_keeps:
  assumes "blind m"
  shows "parameters (env (snd (m s))) = parameters (env s)"
proof -
  have "dom (parameters (env s)) = dom (parameters (env s))" ..
  with assms show ?thesis
    unfolding blind_def by blast
qed

lemma blind_ret: "blind (ret x)"
  by (simp add: blind_def ret_def)

lemma blind_raise: "blind (raise e)"
  by (simp add: blind_def raise_def)

lemma blind_sys_exit: "blind (sys_exit n)"
  by (simp add: blind_def sys_exit_def)

lemma blind_print_msg: "blind (print_msg m)"
  by (simp add: blind_def print_msg_def with_parameters_def)

lemma blind_bind:
  assumes "blind m" and "\<And>x. blind (f x)"
  shows "blind (bind m f)"
proof (rule blindI)
  fix s :: state and ps :: "string \<rightharpoonup> string"
  assume d: "dom ps = dom (parameters (env s))"
  obtain r s1 where ms: "m s = (r, s1)" by (cases "m s")
  from blind_run [OF assms(1) d] ms
  have m': "m (with_parameters ps s) = (r, with_parameters ps s1)"
    by simp
  from blind_keeps [OF assms(1), of s] ms
  have p1: "parameters (env s1) = parameters (env s)"
    by simp
  show "bind m f (with_parameters ps s) = (fst (bind m f s), with_parameters ps (snd (bind m f s)))"
  proof (cases r)
    case (Inl a)
    with ms m' show ?thesis by (simp add: bind_def)
  next
    case (Inr x)
    from d p1 have "dom ps = dom (parameters (env s1))" by simp
    from blind_run [OF assms(2) this]
    have "f x (with_parameters ps s1) = (fst (f x s1), with_parameters ps (snd (f x s1)))" .
    with Inr ms m' show ?thesis by (simp add: bind_def)
  qed
next
  fix s :: state
  obtain r s1 where ms: "m s = (r, s1)" by (cases "m s")
  from blind_keeps [OF assms(1), of s] ms
  have p1: "parameters (env s1) = parameters (env s)"
    by simp
  show "parameters (env (snd (bind m f s))) = parameters (env s)"
  proof (cases r)
    case (Inl a)
    with ms p1 show ?thesis by (simp add: bind_def)
  next
    case (Inr x)
    from blind_keeps [OF assms(2)]
    have "parameters (env (snd (f x s1))) = parameters (env s1)" .
    with Inr ms p1 show ?thesis by (simp add: bind_def)
  qed
qed

lemma blind_get_ssm_parameter_arn: "blind (get_ssm_parameter_arn v)"
proof (cases v)
  case (YStr p)
  show ?thesis
  proof (rule blindI)
    fix s :: state and ps :: "string \<rightharpoonup> string"
    assume "dom ps = dom (parameters (env s))"
    then have "(ps p = None) = (parameters (env s) p = None)"
      by (auto simp: domIff dest: equalityD1 equalityD2)
    then show "get_ssm_parameter_arn v (with_parameters ps s) =
       (fst (get_ssm_parameter_arn v s), with_parameters ps (snd (get_ssm_parameter_arn v s)))"
      unfolding YStr
      by (cases "ps p"; cases "parameters (env s) p")
        (simp_all add: get_ssm_parameter_arn_run with_parameters_def)
  next
    fix s :: state
    show "parameters (env (snd (get_ssm_parameter_arn v s))) = parameters (env s)"
      unfolding YStr by (simp add: get_ssm_parameter_arn_run split: option.splits)
  qed
qed (simp_all add: get_ssm_parameter_arn_def blind_raise)

lemma blind_secrets_loop: "blind (secrets_loop kvs acc)"
proof (induction kvs arbitrary: acc)
  case Nil
  then show ?case by (simp add: blind_ret)
next
  case (Cons kv kvs)
  obtain k v where "kv = (k, v)" by (cases kv)
  with Cons show ?case
    by (simp add: blind_bind blind_get_ssm_parameter_arn)
qed

lemma blind_items: "blind (items v)"
  by (cases v) (simp_all add: items_def blind_raise blind_ret)

lemma blind_session_region_name: "blind session_region_name"
  by (simp add: blind_def session_region_name_def with_parameters_def)

lemma blind_ecs_register_task_definition: "blind (ecs_register_task_definition req)"
  by (simp add: blind_def ecs_register_task_definition_def request_def with_parameters_def)

lemma blind_register_task_definition: "blind (register_task_definition i p role m)"
  unfolding register_task_definition_def
  by (intro blind_bind blind_print_msg blind_items blind_secrets_loop
      blind_session_region_name blind_ecs_register_task_definition)

lemma blind_get_account_id: "blind get_account_id"
  by (simp add: blind_def get_account_id_run with_parameters_def)

lemma blind_get_or_create_target_group: "blind (get_or_create_target_group v p port)"
  by (simp add: blind_def get_or_create_target_group_run with_parameters_def
      split: option.splits)

lemma blind_load_env_map: "blind (load_env_map path)"
  by (simp add: blind_def load_env_map_run with_parameters_def
      split: file_load.splits yaml.splits option.splits)

lemma blind_deploy_service: "blind (deploy_service c n td tg sn sg)"
  by (simp add: blind_def with_parameters_def deploy_service_def describe_services_run
      bind_def try_except_def index0_def ret_def raise_def ecs_update_service_def
      ecs_create_service_def request_def print_msg_def
      split: option.splits)

lemma blind_main: "blind (main a)"
  unfolding main_def
  by (intro blind_bind blind_print_msg blind_load_env_map blind_get_or_create_target_group
      blind_get_account_id blind_register_task_definition blind_deploy_service)

section \<open>The service reconciler\<close>

text \<open>
  C1. Every invocation of \<open>deploy_service\<close> returns normally and issues exactly one
  mutating call. When \<open>describe_services\<close> finds no service, or finds one whose status is
  \<open>INACTIVE\<close>, that call is \<open>create_service\<close>; when it finds a service in any other
  status (an active one in particular) the call is \<open>update_service\<close> with
  \<open>forceNewDeployment\<close> set.
\<close>

theorem deploy_service_one_mutation:
  "fst (deploy_service c n td tg sn sg s) = Inr () \<and>
   filter mutating (issued s (snd (deploy_service c n td tg sn sg s))) =
     (case services (env s) (c, n) of
        None \<Rightarrow> [EcsCreateService (create_service_kwargs c n td tg sn sg)]
      | Some sv \<Rightarrow>
          if status sv = ''INACTIVE''
          then [EcsCreateService (create_service_kwargs c n td tg sn sg)]
          else [EcsUpdateService (update_service_kwargs c n td)]) \<and>
   us_forceNewDeployment (update_service_kwargs c n td)"
  by (simp add: deploy_service_result deploy_service_calls issued_def service_present_def
      update_service_kwargs_def split: option.splits)

section \<open>The secret resolver\<close>

text \<open>
  C2. When the file gives a mapping from names to path strings and some path of it is not
  in the parameter store, the run stops with \<open>sys.exit(1)\<close>, the last line printed is
  the diagnostic naming the first such path in the order of the mapping, and no
  \<open>register_task_definition\<close> call has been issued.
\<close>

theorem missing_secret_exits_before_registration:
  assumes "files w (arg_env_yml a) = Document (YMap doc)"
    and "map_of doc ''variables'' = Some (YMap (map (\<lambda>(k, p). (k, YStr p)) ps))"
    and "List.find (\<lambda>p. parameters w p = None) (map snd ps) = Some p"
  shows "fst (main a (process_start w)) = Inl (SysExit 1) \<and>
         exit_status (fst (main a (process_start w))) = 1 \<and>
         last (stdout (snd (main a (process_start w)))) = MsgParametroNoExiste p \<and>
         filter is_register (calls (snd (main a (process_start w)))) = []"
proof -
  let ?s1 = "\<lparr>env = w, calls = [], stdout = [MsgIniciandoScript (arg_project a)]\<rparr>"
  obtain tg_arn s2 xs2 where
    tg: "get_or_create_target_group (arg_vpc_id a) (arg_project a) 8000 ?s1 = (Inr tg_arn, s2)"
    and s2: "calls s2 = calls ?s1 @ xs2" "filter is_register xs2 = []"
      "parameters (env s2) = parameters (env ?s1)"
    using get_or_create_target_group_frame by blast
  let ?s3 = "s2\<lparr>calls := calls s2 @ [StsGetCallerIdentity]\<rparr>"
  let ?role = "''arn:aws:iam::'' @ account (env s2) @ '':role/ecsTaskExecutionRole''"
  from assms(3) s2 have "List.find (\<lambda>p. parameters (env ?s3) p = None) (map snd ps) = Some p"
    by simp
  from register_task_definition_missing [OF this, of "arg_image a" "arg_project a" ?role]
  obtain xs where
    reg: "register_task_definition (arg_image a) (arg_project a) ?role
            (YMap (map (\<lambda>(k, p). (k, YStr p)) ps)) ?s3 =
          (Inl (SysExit 1),
           ?s3\<lparr>calls := calls ?s3 @ xs,
             stdout := stdout ?s3 @ [MsgGenerandoSecretos, MsgParametroNoExiste p]\<rparr>)"
    and xs: "filter mutating xs = []"
    by blast
  have "main a (process_start w) =
          (Inl (SysExit 1),
           ?s3\<lparr>calls := calls ?s3 @ xs,
             stdout := stdout ?s3 @ [MsgGenerandoSecretos, MsgParametroNoExiste p]\<rparr>)"
    using assms(1,2) tg reg
    by (simp add: main_def bind_def print_msg_def process_start_def load_env_map_run
        get_account_id_run)
  with s2 not_mutating_filters [OF xs] show ?thesis
    by simp
qed

theorem missing_secret_exits_before_registration_witness:
  "fst (main example_args (process_start (example_world\<lparr>parameters := Map.empty\<rparr>))) =
     Inl (SysExit 1) \<and>
   last (stdout (snd (main example_args (process_start (example_world\<lparr>parameters := Map.empty\<rparr>))))) =
     MsgParametroNoExiste ''/prod/db_pass'' \<and>
   filter is_register
     (calls (snd (main example_args (process_start (example_world\<lparr>parameters := Map.empty\<rparr>))))) = []"
  using missing_secret_exits_before_registration
    [of "example_world\<lparr>parameters := Map.empty\<rparr>" example_args
      "[(''variables'', YMap [(''DB_PASS'', YStr ''/prod/db_pass'')])]"
      "[(''DB_PASS'', ''/prod/db_pass'')]" "''/prod/db_pass''"]
  by (simp add: example_world_def example_args_def)

text \<open>
  C3, as the code has it. For a path that is in the store the resolver returns the
  identifier built by \<open>ssm_parameter_arn\<close> from the region of the session, the account
  and the path, prints nothing and changes nothing. It issues two remote calls: the
  existence check on the path and one call to the identity service for the account.
\<close>

theorem existing_parameter_arn:
  assumes "parameters (env s) p \<noteq> None"
  shows "fst (get_ssm_parameter_arn (YStr p) s) =
           Inr (ssm_parameter_arn (region_name (env s)) (account (env s)) p) \<and>
         issued s (snd (get_ssm_parameter_arn (YStr p) s)) =
           [SsmGetParameter p, StsGetCallerIdentity] \<and>
         env (snd (get_ssm_parameter_arn (YStr p) s)) = env s \<and>
         stdout (snd (get_ssm_parameter_arn (YStr p) s)) = stdout s"
  using assms by (auto simp: get_ssm_parameter_arn_run issued_def)

theorem existing_parameter_arn_witness:
  "fst (get_ssm_parameter_arn (YStr ''/prod/db_pass'') (process_start example_world)) =
     Inr ''arn:aws:ssm:us-east-1:123456789012:parameter/prod/db_pass'' \<and>
   issued (process_start example_world)
     (snd (get_ssm_parameter_arn (YStr ''/prod/db_pass'') (process_start example_world))) =
     [SsmGetParameter ''/prod/db_pass'', StsGetCallerIdentity]"
  using existing_parameter_arn [of "process_start example_world" "''/prod/db_pass''"]
  by (simp add: example_world_def process_start_def ssm_parameter_arn_def)

text \<open>
  C3 as stated, with the existence check as the only remote call, fails on a path that
  exists: the call to the identity service follows it.
\<close>

theorem parameter_arn_calls_identity_service:
  "parameters example_world ''/prod/db_pass'' \<noteq> None \<and>
   issued (process_start example_world)
     (snd (get_ssm_parameter_arn (YStr ''/prod/db_pass'') (process_start example_world))) \<noteq>
     [SsmGetParameter ''/prod/db_pass'']"
  by (simp add: get_ssm_parameter_arn_run issued_def example_world_def process_start_def)

section \<open>The target group resolver\<close>

text \<open>
  C4. When no group of the name \<open>project-tg\<close> exists, the first call of the resolver
  returns the identifier the service assigns, a second call for the same project returns
  the same identifier, and the two calls together issue at most one
  \<open>create_target_group\<close>. When a group of that name exists, the resolver returns its
  identifier, issues no mutating call and leaves the world as it was.
\<close>

theorem target_group_resolver_idempotent:
  "(case target_groups (env s) (p @ ''-tg'') of
      None \<Rightarrow>
        fst (get_or_create_target_group v p port s) =
          Inr (assign_target_group_arn (env s) (p @ ''-tg'')) \<and>
        fst (get_or_create_target_group v' p port'
               (snd (get_or_create_target_group v p port s))) =
          Inr (assign_target_group_arn (env s) (p @ ''-tg'')) \<and>
        length (filter is_create_target_group
          (issued s (snd (get_or_create_target_group v' p port'
                            (snd (get_or_create_target_group v p port s)))))) \<le> 1
    | Some arn \<Rightarrow>
        fst (get_or_create_target_group v p port s) = Inr arn \<and>
        env (snd (get_or_create_target_group v p port s)) = env s \<and>
        filter mutating (issued s (snd (get_or_create_target_group v p port s))) = [])"
  by (simp add: get_or_create_target_group_run issued_def split: option.splits)

section \<open>The whole procedure\<close>

text \<open>
  C5, as the code has it. Every run registers at most one task definition revision and
  issues at most one service call that is a creation or an update. A run that reaches the
  end of the script registers exactly one revision and issues exactly one of the two.
\<close>

theorem main_no_duplicates:
  "length (filter is_register (calls (snd (main a (process_start w))))) \<le> 1 \<and>
   length (filter is_create_service (calls (snd (main a (process_start w))))) +
   length (filter is_update_service (calls (snd (main a (process_start w))))) \<le> 1 \<and>
   (fst (main a (process_start w)) = Inr () \<longrightarrow>
      length (filter is_register (calls (snd (main a (process_start w))))) = 1 \<and>
      length (filter is_create_service (calls (snd (main a (process_start w))))) +
      length (filter is_update_service (calls (snd (main a (process_start w))))) = 1)"
proof -
  obtain r s' where run: "main a (process_start w) = (r, s')"
    by (cases "main a (process_start w)")
  from main_shape [OF run] show ?thesis
    unfolding run by (cases r) (auto simp: process_start_def)
qed

theorem main_no_duplicates_witness:
  "fst (main example_args (process_start example_world)) = Inr () \<and>
   length (filter is_register (calls (snd (main example_args (process_start example_world))))) = 1 \<and>
   length (filter is_create_service (calls (snd (main example_args (process_start example_world))))) +
   length (filter is_update_service (calls (snd (main example_args (process_start example_world))))) = 1"
  using main_no_duplicates [of example_args example_world] example_run by simp

text \<open>
  C5 as stated fails on a run whose configuration file cannot be read: it issues neither
  a creation nor an update, so not exactly one of the two.
\<close>

theorem unreadable_config_no_service_call:
  "length (filter is_create_service
      (calls (snd (main (example_args\<lparr>arg_env_yml := ''missing.yml''\<rparr>) (process_start example_world))))) +
   length (filter is_update_service
      (calls (snd (main (example_args\<lparr>arg_env_yml := ''missing.yml''\<rparr>) (process_start example_world)))))
   \<noteq> 1"
  by (simp add: run_defs sys_exit_def example_world_def example_args_def)

section \<open>The configuration file\<close>

text \<open>
  C6. When the configuration file cannot be opened, cannot be parsed, or parses to a
  document without the key \<open>variables\<close> (a mapping that lacks it, or a document that is
  no mapping), the run prints the diagnostic after the opening line, stops with
  \<open>sys.exit(1)\<close>, and has issued no remote call and changed nothing outside.
\<close>

theorem config_failure_exits:
  assumes "files (env s) (arg_env_yml a) = Unreadable \<or>
           files (env s) (arg_env_yml a) = Malformed \<or>
           (\<exists>d. files (env s) (arg_env_yml a) = Document d \<and>
                (\<forall>kvs. d = YMap kvs \<longrightarrow> map_of kvs ''variables'' = None))"
  shows "\<exists>e. main a s =
           (Inl (SysExit 1),
            s\<lparr>stdout := stdout s @
               [MsgIniciandoScript (arg_project a), MsgErrorLeyendo (arg_env_yml a) e]\<rparr>) \<and>
           exit_status (fst (main a s)) = 1 \<and>
           issued s (snd (main a s)) = []"
proof -
  let ?s0 = "s\<lparr>stdout := stdout s @ [MsgIniciandoScript (arg_project a)]\<rparr>"
  from assms have "files (env ?s0) (arg_env_yml a) = Unreadable \<or>
           files (env ?s0) (arg_env_yml a) = Malformed \<or>
           (\<exists>d. files (env ?s0) (arg_env_yml a) = Document d \<and>
                (\<forall>kvs. d = YMap kvs \<longrightarrow> map_of kvs ''variables'' = None))"
    by simp
  from load_env_map_fails [OF this] obtain e where
    "load_env_map (arg_env_yml a) ?s0 =
       (Inl (SysExit 1), ?s0\<lparr>stdout := stdout ?s0 @ [MsgErrorLeyendo (arg_env_yml a) e]\<rparr>)"
    by blast
  then show ?thesis
    by (auto simp: main_def bind_def print_msg_def issued_def)
qed

theorem config_failure_exits_witness:
  "main example_args (process_start (example_world\<lparr>files := \<lambda>_. Document (YMap [])\<rparr>)) =
     (Inl (SysExit 1),
      \<lparr>env = example_world\<lparr>files := \<lambda>_. Document (YMap [])\<rparr>, calls = [],
       stdout = [MsgIniciandoScript ''app'', MsgErrorLeyendo ''env.yml'' KeyError]\<rparr>)"
  using config_failure_exits
    [of "process_start (example_world\<lparr>files := \<lambda>_. Document (YMap [])\<rparr>)" example_args]
  by (simp add: process_start_def example_args_def main_def bind_def print_msg_def
      load_env_map_run sys_exit_def)

text \<open>
  C10. The diagnostic of the configuration stage is printed, and the stage ends in
  \<open>sys.exit(1)\<close>, exactly when the body of its \<open>try\<close> raises: opening the file,
  parsing it, or subscripting the document with \<open>variables\<close>. A document whose
  \<open>variables\<close> key is present with a value that is not a mapping (\<open>null\<close>, say)
  passes the stage with that value; the run then dies later on the uncaught
  \<open>AttributeError\<close> of \<open>.items()\<close>, and the diagnostic is never printed.
\<close>

theorem config_exit_exactly_when_reading_raises:
  "((\<exists>e. MsgErrorLeyendo (arg_env_yml a) e \<in> set (stdout (snd (main a (process_start w))))) =
    (\<exists>e. fst (bind (open_and_safe_load (arg_env_yml a)) (\<lambda>d. subscript d ''variables'')
               (process_start w)) = Inl (Uncaught e))) \<and>
   ((fst (load_env_map (arg_env_yml a) (process_start w)) = Inl (SysExit 1)) =
    (\<exists>e. fst (bind (open_and_safe_load (arg_env_yml a)) (\<lambda>d. subscript d ''variables'')
               (process_start w)) = Inl (Uncaught e))) \<and>
   (files w (arg_env_yml a) = Document (YMap doc) \<and> map_of doc ''variables'' = Some v \<and>
    \<not> is_mapping v \<longrightarrow>
      fst (load_env_map (arg_env_yml a) (process_start w)) = Inr v \<and>
      fst (main a (process_start w)) = Inl (Uncaught AttributeError) \<and>
      (\<forall>e. MsgErrorLeyendo (arg_env_yml a) e \<notin> set (stdout (snd (main a (process_start w))))))"
proof (intro conjI impI)
  show "(fst (load_env_map (arg_env_yml a) (process_start w)) = Inl (SysExit 1)) =
    (\<exists>e. fst (bind (open_and_safe_load (arg_env_yml a)) (\<lambda>d. subscript d ''variables'')
               (process_start w)) = Inl (Uncaught e))"
    by (simp only: load_env_map_exit read_variables_raises)
  then show "(\<exists>e. MsgErrorLeyendo (arg_env_yml a) e
        \<in> set (stdout (snd (main a (process_start w))))) =
    (\<exists>e. fst (bind (open_and_safe_load (arg_env_yml a)) (\<lambda>d. subscript d ''variables'')
               (process_start w)) = Inl (Uncaught e))"
    by (simp only: main_config_error_printed)
next
  assume hyp: "files w (arg_env_yml a) = Document (YMap doc) \<and>
    map_of doc ''variables'' = Some v \<and> \<not> is_mapping v"
  then show passes: "fst (load_env_map (arg_env_yml a) (process_start w)) = Inr v"
    by (simp add: load_env_map_run process_start_def)
  from hyp show "fst (main a (process_start w)) = Inl (Uncaught AttributeError)"
    by (simp add: main_not_a_mapping)
  from passes show "\<forall>e. MsgErrorLeyendo (arg_env_yml a) e
      \<notin> set (stdout (snd (main a (process_start w))))"
    using main_config_error_printed [of a w] by simp
qed

theorem config_exit_exactly_when_reading_raises_witness:
  "fst (load_env_map ''null.yml'' (process_start example_world)) = Inr YNull \<and>
   fst (main (example_args\<lparr>arg_env_yml := ''null.yml''\<rparr>) (process_start example_world)) =
     Inl (Uncaught AttributeError) \<and>
   (\<forall>e. MsgErrorLeyendo ''null.yml'' e \<notin>
     set (stdout (snd (main (example_args\<lparr>arg_env_yml := ''null.yml''\<rparr>)
       (process_start example_world)))))"
  using config_exit_exactly_when_reading_raises
    [of "example_args\<lparr>arg_env_yml := ''null.yml''\<rparr>" example_world
      "[(''variables'', YNull)]" YNull]
  by (simp add: example_world_def example_args_def)

section \<open>The lists of subnets and security groups\<close>

text \<open>
  C9. Every \<open>create_service\<close> call of a run carries as subnets and security groups the
  comma-splits of the two command line strings. The split is the one whose pieces hold no
  comma and give the string back when joined with commas, in order, with one piece more
  than there are commas: nothing is trimmed and empty pieces stay, as after a trailing
  comma or for the empty string.
\<close>

theorem create_service_lists_are_comma_splits:
  "(\<forall>req. EcsCreateService req \<in> set (calls (snd (main a (process_start w)))) \<longrightarrow>
      cs_subnets req = str_split CHR '','' (arg_subnets a) \<and>
      cs_securityGroups req = str_split CHR '','' (arg_security_groups a)) \<and>
   str_join '','' (str_split CHR '','' s) = s \<and>
   (\<forall>piece \<in> set (str_split CHR '','' s). CHR '','' \<notin> set piece) \<and>
   length (str_split CHR '','' s) = Suc (count_list s CHR '','') \<and>
   str_split CHR '','' ''a, b,'' = [''a'', '' b'', ''''] \<and>
   str_split CHR '','' '''' = ['''']"
proof -
  obtain r s' where run: "main a (process_start w) = (r, s')"
    by (cases "main a (process_start w)")
  have "cs_subnets req = str_split CHR '','' (arg_subnets a) \<and>
        cs_securityGroups req = str_split CHR '','' (arg_security_groups a)"
    if "EcsCreateService req \<in> set (calls s')" for req
  proof -
    from main_shape [OF run] obtain ys where ys: "filter is_create_service ys = []"
      and shape: "case r of
              Inl _ \<Rightarrow> calls s' = calls (process_start w) @ ys
            | Inr _ \<Rightarrow>
                (\<exists>role secrets_config td_arn tg_arn present.
                   calls s' = calls (process_start w) @ ys @
                     [EcsRegisterTaskDefinition
                        (register_task_definition_kwargs (arg_image a) (arg_project a) role
                           secrets_config (region_name (env (process_start w)))),
                      EcsDescribeServices (arg_cluster a) [arg_project a @ ''-service''],
                      EcsDescribeServices (arg_cluster a) [arg_project a @ ''-service''],
                      if present
                      then EcsUpdateService
                        (update_service_kwargs (arg_cluster a) (arg_project a @ ''-service'') td_arn)
                      else EcsCreateService
                        (create_service_kwargs (arg_cluster a) (arg_project a @ ''-service'') td_arn
                           tg_arn (str_split CHR '','' (arg_subnets a))
                           (str_split CHR '','' (arg_security_groups a)))])"
      by blast
    from ys have not_ys: "EcsCreateService req \<notin> set ys"
      by (auto simp: filter_empty_conv)
    show ?thesis
    proof (cases r)
      case (Inl e)
      with shape that not_ys show ?thesis
        by (simp add: process_start_def)
    next
      case (Inr u)
      with shape that not_ys show ?thesis
        by (auto simp: process_start_def create_service_kwargs_def split: if_splits)
    qed
  qed
  then show ?thesis
    unfolding run
    by (simp add: str_join_split [of "CHR '',''", simplified] str_split_pieces length_str_split)
qed

theorem create_service_lists_are_comma_splits_witness:
  "EcsCreateService
     (create_service_kwargs ''main'' ''app-service'' ''arn:aws:ecs:task-definition/app:I''
        ''arn:aws:elasticloadbalancing:targetgroup/app-tg''
        [''subnet-a'', ''subnet-b'', ''''] [''''])
     \<in> set (calls (snd (main example_args (process_start example_world)))) \<and>
   str_split CHR '','' (arg_subnets example_args) = [''subnet-a'', ''subnet-b'', ''''] \<and>
   str_split CHR '','' (arg_security_groups example_args) = ['''']"
proof -
  let ?req = "create_service_kwargs ''main'' ''app-service'' ''arn:aws:ecs:task-definition/app:I''
        ''arn:aws:elasticloadbalancing:targetgroup/app-tg''
        [''subnet-a'', ''subnet-b'', ''''] ['''']"
  have mem: "EcsCreateService ?req
      \<in> set (calls (snd (main example_args (process_start example_world))))"
    by (simp add: example_run_calls)
  with create_service_lists_are_comma_splits [of example_args example_world "[]"]
  have req: "cs_subnets ?req = str_split CHR '','' (arg_subnets example_args)"
    "cs_securityGroups ?req = str_split CHR '','' (arg_security_groups example_args)"
    by blast+
  have "str_split CHR '','' (arg_subnets example_args) = cs_subnets ?req"
    by (rule req(1) [symmetric])
  also have "\<dots> = [''subnet-a'', ''subnet-b'', '''']"
    by (simp add: create_service_kwargs_def)
  finally have subnets: "str_split CHR '','' (arg_subnets example_args) =
      [''subnet-a'', ''subnet-b'', '''']" .
  have "str_split CHR '','' (arg_security_groups example_args) = cs_securityGroups ?req"
    by (rule req(2) [symmetric])
  also have "\<dots> = ['''']"
    by (simp add: create_service_kwargs_def)
  finally have groups: "str_split CHR '','' (arg_security_groups example_args) = ['''']" .
  from mem subnets groups show ?thesis
    by (intro conjI)
qed

section \<open>The container name of the load balancer binding\<close>

text \<open>
  C8. The task definition names its container \<open>project-container\<close>; the binding of
  \<open>create_service\<close> derives the name from the service name by replacing every
  \<open>-service\<close> in \<open>project-service\<close>, not only the suffix that \<open>main\<close> appended.
  For the project \<open>web-service\<close> the run registers the container
  \<open>web-service-container\<close> and binds the load balancer to \<open>web-container\<close>.
\<close>

theorem container_names_differ_for_web_service:
  "concat (map registered_container_names
     (calls (snd (main (example_args\<lparr>arg_project := ''web-service''\<rparr>)
        (process_start example_world))))) = [''web-service-container''] \<and>
   concat (map bound_container_names
     (calls (snd (main (example_args\<lparr>arg_project := ''web-service''\<rparr>)
        (process_start example_world))))) = [''web-container'']"
  by (simp add: run_defs example_world_def example_args_def ssm_parameter_arn_def
      create_target_group_kwargs_def register_task_definition_kwargs_def
      create_service_kwargs_def update_service_kwargs_def)

text \<open>
  X1. When \<open>-service\<close> does not occur in the project name, the replacement removes
  exactly the appended suffix, and every container name a run binds or registers is
  \<open>project-container\<close>.
\<close>

theorem container_names_agree_without_service_in_project:
  assumes "\<not> (\<exists>u v. arg_project a = u @ ''-service'' @ v)"
  shows "set (concat (map bound_container_names (calls (snd (main a (process_start w))))))
           \<subseteq> {arg_project a @ ''-container''} \<and>
         set (concat (map registered_container_names (calls (snd (main a (process_start w))))))
           \<subseteq> {arg_project a @ ''-container''}"
proof -
  obtain r s' where run: "main a (process_start w) = (r, s')"
    by (cases "main a (process_start w)")
  from main_shape [OF run] obtain ys where ys: "filter is_register ys = []"
    "filter is_create_service ys = []"
    and shape: "case r of
              Inl _ \<Rightarrow> calls s' = calls (process_start w) @ ys
            | Inr _ \<Rightarrow>
                (\<exists>role secrets_config td_arn tg_arn present.
                   calls s' = calls (process_start w) @ ys @
                     [EcsRegisterTaskDefinition
                        (register_task_definition_kwargs (arg_image a) (arg_project a) role
                           secrets_config (region_name (env (process_start w)))),
                      EcsDescribeServices (arg_cluster a) [arg_project a @ ''-service''],
                      EcsDescribeServices (arg_cluster a) [arg_project a @ ''-service''],
                      if present
                      then EcsUpdateService
                        (update_service_kwargs (arg_cluster a) (arg_project a @ ''-service'') td_arn)
                      else EcsCreateService
                        (create_service_kwargs (arg_cluster a) (arg_project a @ ''-service'') td_arn
                           tg_arn (str_split CHR '','' (arg_subnets a))
                           (str_split CHR '','' (arg_security_groups a)))])"
    by blast
  note quiet = no_register_no_names [OF ys(1)] no_create_no_names [OF ys(2)]
  note strip = strip_service_suffix [OF assms]
  show ?thesis
  proof (cases r)
    case (Inl e)
    with shape quiet show ?thesis
      unfolding run by (simp add: process_start_def)
  next
    case (Inr u)
    with shape quiet strip show ?thesis
      unfolding run
      by (auto simp: process_start_def create_service_kwargs_def
          register_task_definition_kwargs_def split: if_splits)
  qed
qed

theorem container_names_agree_without_service_in_project_witness:
  "concat (map bound_container_names
     (calls (snd (main example_args (process_start example_world))))) = [''app-container''] \<and>
   concat (map registered_container_names
     (calls (snd (main example_args (process_start example_world))))) = [''app-container'']"
proof -
  have no: "\<not> (\<exists>u v. arg_project example_args = u @ ''-service'' @ v)"
    by (auto simp: example_args_def append_eq_Cons_conv Cons_eq_append_conv)
  from container_names_agree_without_service_in_project [OF no, of example_world]
  show ?thesis
    by (simp add: example_run_calls create_service_kwargs_def
        register_task_definition_kwargs_def)
qed

section \<open>The values of the secrets\<close>

text \<open>
  C7. The parameter store answers \<open>get_parameter\<close> with the parameter, value included,
  and the resolver drops the answer. Two worlds that hold the same paths, with whatever
  values, give a run the same result, the same calls in the same order and the same
  lines printed, and the run leaves them differing in those values only.
\<close>

theorem secret_values_do_not_matter:
  assumes "dom ps = dom (parameters w)"
  shows "fst (main a (process_start (w\<lparr>parameters := ps\<rparr>))) = fst (main a (process_start w)) \<and>
         calls (snd (main a (process_start (w\<lparr>parameters := ps\<rparr>)))) =
           calls (snd (main a (process_start w))) \<and>
         stdout (snd (main a (process_start (w\<lparr>parameters := ps\<rparr>)))) =
           stdout (snd (main a (process_start w))) \<and>
         env (snd (main a (process_start (w\<lparr>parameters := ps\<rparr>)))) =
           (env (snd (main a (process_start w))))\<lparr>parameters := ps\<rparr>"
proof -
  have start: "process_start (w\<lparr>parameters := ps\<rparr>) = with_parameters ps (process_start w)"
    by (simp add: process_start_def with_parameters_def)
  from assms have "dom ps = dom (parameters (env (process_start w)))"
    by (simp add: process_start_def)
  from blind_run [OF blind_main this]
  have "main a (with_parameters ps (process_start w)) =
          (fst (main a (process_start w)), with_parameters ps (snd (main a (process_start w))))" .
  then show ?thesis
    unfolding start by (simp add: with_parameters_def)
qed

theorem secret_values_do_not_matter_witness:
  "fst (main example_args (process_start (example_world\<lparr>parameters := [''/prod/db_pass'' \<mapsto> ''other'']\<rparr>))) =
     fst (main example_args (process_start example_world)) \<and>
   calls (snd (main example_args (process_start (example_world\<lparr>parameters := [''/prod/db_pass'' \<mapsto> ''other'']\<rparr>)))) =
     calls (snd (main example_args (process_start example_world))) \<and>
   stdout (snd (main example_args (process_start (example_world\<lparr>parameters := [''/prod/db_pass'' \<mapsto> ''other'']\<rparr>)))) =
     stdout (snd (main example_args (process_start example_world))) \<and>
   [''/prod/db_pass'' \<mapsto> ''other''] \<noteq> parameters example_world"
proof -
  have d: "dom [''/prod/db_pass'' \<mapsto> ''other''] = dom (parameters example_world)"
    by (simp add: example_world_def)
  have "[''/prod/db_pass'' \<mapsto> ''other''] ''/prod/db_pass'' \<noteq>
        parameters example_world ''/prod/db_pass''"
    by (simp add: example_world_def)
  then have "[''/prod/db_pass'' \<mapsto> ''other''] \<noteq> parameters example_world"
    by metis
  with secret_values_do_not_matter [OF d, of example_args] show ?thesis
    by simp
qed

end
